theory Spec2Isabelle
  imports Complex_Main
begin

section \<open>Receipt extraction pipeline (package server)\<close>

text \<open>
  A shallow embedding of the gRPC service of \<^verbatim>\<open>internal/server\<close>: the request
  handler \<^verbatim>\<open>ParseReceipt\<close>, the health handler, the fence stripper
  \<^verbatim>\<open>extractJSON\<close>, the decoder \<^verbatim>\<open>parseResponse\<close> and the scorer
  \<^verbatim>\<open>calcConfidence\<close>.

  Conventions of the embedding:
  \<^item> a Go string is a list of code points (\<open>rune\<close>); literals are written
    \<open>lit ''...''\<close>;
  \<^item> \<^verbatim>\<open>float64\<close> and \<^verbatim>\<open>float32\<close> amounts are exact rationals: the
    rounding of IEEE arithmetic is not part of the model;
  \<^item> a nil-able pointer is an \<open>option\<close>;
  \<^item> durations and instants are natural numbers of nanoseconds.
\<close>

subsection \<open>Strings\<close>

type_synonym rune = nat
type_synonym gostring = "rune list"

definition lit :: "string \<Rightarrow> gostring" where
  "lit s = map of_char s"

subsection \<open>extractJSON\<close>

text \<open>
  \<^verbatim>\<open>\s\<close> of the regular expression is the class \<^verbatim>\<open>[\t\n\f\r ]\<close>;
  \<^verbatim>\<open>strings.TrimSpace\<close> trims every code point that \<^verbatim>\<open>unicode.IsSpace\<close>
  accepts.
\<close>

definition re_space :: "rune \<Rightarrow> bool" where
  "re_space c = (c = 9 \<or> c = 10 \<or> c = 12 \<or> c = 13 \<or> c = 32)"

definition IsSpace :: "rune \<Rightarrow> bool" where
  "IsSpace c =
     (c = 9 \<or> c = 10 \<or> c = 11 \<or> c = 12 \<or> c = 13 \<or> c = 32 \<or> c = 0x85 \<or> c = 0xA0
      \<or> c = 0x1680 \<or> (0x2000 \<le> c \<and> c \<le> 0x200A) \<or> c = 0x2028 \<or> c = 0x2029
      \<or> c = 0x202F \<or> c = 0x205F \<or> c = 0x3000)"

definition HasPrefix :: "gostring \<Rightarrow> gostring \<Rightarrow> bool" where
  "HasPrefix s p = (take (length p) s = p)"

definition fence :: gostring where
  "fence = lit ''```''"

definition skip_json :: "gostring \<Rightarrow> gostring" where
  "skip_json s = (if HasPrefix s (lit ''json'') then drop 4 s else s)"

text \<open>
  \<^verbatim>\<open>codeBlockRe.ReplaceAllString(s, "")\<close> for the pattern
  \<^verbatim>\<open>```(?:json)?\s*\<close>: scanning from the left, every match (three backticks, then
  \<^verbatim>\<open>json\<close> if it follows, then the longest run of \<^verbatim>\<open>\s\<close>) is deleted and scanning
  resumes after it. A match is never empty.
\<close>

function codeBlockRe_ReplaceAll :: "gostring \<Rightarrow> gostring" where
  "codeBlockRe_ReplaceAll [] = []"
| "codeBlockRe_ReplaceAll (c # cs) =
     (if HasPrefix (c # cs) fence
      then codeBlockRe_ReplaceAll (dropWhile re_space (skip_json (drop 3 (c # cs))))
      else c # codeBlockRe_ReplaceAll cs)"
  by pat_completeness auto
termination
proof (relation "measure length")
  fix c cs
  assume "HasPrefix (c # cs) fence"
  have "length (skip_json xs) \<le> length xs" for xs
    by (simp add: skip_json_def)
  then have "length (dropWhile re_space (skip_json (drop 3 (c # cs)))) \<le> length (drop 3 (c # cs))"
    by (rule order_trans [OF length_dropWhile_le])
  also have "\<dots> < length (c # cs)"
    by simp
  finally show "(dropWhile re_space (skip_json (drop 3 (c # cs))), c # cs) \<in> measure length"
    by simp
qed simp_all

text \<open>\<^verbatim>\<open>strings.ReplaceAll(s, "```", "")\<close>: leftmost, non-overlapping occurrences.\<close>

function ReplaceAll_fence :: "gostring \<Rightarrow> gostring" where
  "ReplaceAll_fence [] = []"
| "ReplaceAll_fence (c # cs) =
     (if HasPrefix (c # cs) fence then ReplaceAll_fence (drop 3 (c # cs))
      else c # ReplaceAll_fence cs)"
  by pat_completeness auto
termination
  by (relation "measure length") simp_all

definition TrimSpace :: "gostring \<Rightarrow> gostring" where
  "TrimSpace s = rev (dropWhile IsSpace (rev (dropWhile IsSpace s)))"

definition extractJSON :: "gostring \<Rightarrow> gostring" where
  "extractJSON s = TrimSpace (ReplaceAll_fence (codeBlockRe_ReplaceAll s))"

subsection \<open>Protocol messages\<close>

record ParsedItem =
  Raw :: gostring
  Name :: "gostring option"
  Qty :: rat
  UnitPrice :: rat

record ParsedReceipt =
  Merchant :: "gostring option"
  Date :: "gostring option"
  Currency :: "gostring option"
  Items :: "ParsedItem list"
  Subtotal :: "rat option"
  Tax :: "rat option"
  Total :: "rat option"
  Confidence :: rat

subsection \<open>JSON values and the decoder of encoding/json\<close>

text \<open>
  \<^verbatim>\<open>json.Unmarshal\<close> works in two stages. It first checks that the whole text is
  syntactically valid JSON and fails with a syntax error otherwise; only then does it
  store the value into the target. The first stage is the parameter \<open>scan\<close> of the
  model (\<open>Inl\<close> the text of the syntax error, \<open>Inr\<close> the value that was read, an
  object as the list of its members in the order of the text). The second stage is
  written out below for the two struct types of this package.
\<close>

datatype json =
    JNull
  | JBool bool
  | JNumber rat
  | JString gostring
  | JArray "json list"
  | JObject "(gostring \<times> json) list"

type_synonym scanner = "gostring \<Rightarrow> gostring + json"

datatype json_error =
    SyntaxError gostring
  | UnmarshalTypeError gostring gostring

fun kind_of :: "json \<Rightarrow> gostring" where
  "kind_of JNull = lit ''null''"
| "kind_of (JBool _) = lit ''bool''"
| "kind_of (JNumber _) = lit ''number''"
| "kind_of (JString _) = lit ''string''"
| "kind_of (JArray _) = lit ''array''"
| "kind_of (JObject _) = lit ''object''"

text \<open>\<^verbatim>\<open>err.Error()\<close>; the wording of a type error is abbreviated.\<close>

fun Error_text :: "json_error \<Rightarrow> gostring" where
  "Error_text (SyntaxError msg) = msg"
| "Error_text (UnmarshalTypeError kind ty) =
     lit ''json: cannot unmarshal '' @ kind @ lit '' into Go value of type '' @ ty"

text \<open>
  A member is stored into the field whose name equals its key after case folding
  (\<^verbatim>\<open>foldName\<close>): ASCII letters are folded to upper case, and the two code points
  outside ASCII whose simple fold is an ASCII letter (U+017F and U+212A) to that letter.
  Every field name of this package is ASCII, so no other fold can make a key match.
\<close>

definition foldRune :: "rune \<Rightarrow> rune" where
  "foldRune c =
     (if 97 \<le> c \<and> c \<le> 122 then c - 32
      else if c = 0x17F then 83
      else if c = 0x212A then 75
      else c)"

definition foldName :: "gostring \<Rightarrow> gostring" where
  "foldName key = map foldRune key"

definition names_field :: "gostring \<Rightarrow> string \<Rightarrow> bool" where
  "names_field key field = (foldName key = foldName (lit field))"

text \<open>
  A number is stored into a \<^verbatim>\<open>float64\<close> unless \<^verbatim>\<open>strconv.ParseFloat\<close> reports that it
  is out of range: its magnitude rounds beyond the largest finite value.
\<close>

definition float64_out_of_range :: "rat \<Rightarrow> bool" where
  "float64_out_of_range q = (\<bar>q\<bar> \<ge> 2 ^ 1024 - 2 ^ 970)"

text \<open>
  Storing into a \<^verbatim>\<open>string\<close> field: \<^verbatim>\<open>null\<close> leaves the field as it is. Storing
  into a pointer field: \<^verbatim>\<open>null\<close> sets the pointer to nil. A value of another kind
  is a type error.
\<close>

definition store_string :: "json \<Rightarrow> gostring \<Rightarrow> json_error + gostring" where
  "store_string v old =
     (case v of
        JNull \<Rightarrow> Inr old
      | JString s \<Rightarrow> Inr s
      | _ \<Rightarrow> Inl (UnmarshalTypeError (kind_of v) (lit ''string'')))"

definition store_string_ptr :: "json \<Rightarrow> json_error + gostring option" where
  "store_string_ptr v =
     (case v of
        JNull \<Rightarrow> Inr None
      | JString s \<Rightarrow> Inr (Some s)
      | _ \<Rightarrow> Inl (UnmarshalTypeError (kind_of v) (lit ''string'')))"

definition store_float64_ptr :: "json \<Rightarrow> json_error + rat option" where
  "store_float64_ptr v =
     (case v of
        JNull \<Rightarrow> Inr None
      | JNumber q \<Rightarrow>
          if float64_out_of_range q
          then Inl (UnmarshalTypeError (lit ''number'') (lit ''float64''))
          else Inr (Some q)
      | _ \<Rightarrow> Inl (UnmarshalTypeError (kind_of v) (lit ''float64'')))"

text \<open>The json types for parsing model output.\<close>

record itemJSON =
  jRaw :: gostring
  jName :: gostring
  jQty :: "rat option"
  jUnitPrice :: "rat option"

text \<open>
  \<open>jItems\<close> is the slice \<^verbatim>\<open>Items\<close> up to its length; \<open>jItemsSpare\<close> holds the elements
  that earlier stores left in its backing array beyond the length (the decoder stores
  into the elements already there; see \<open>store_items\<close>).
\<close>

record parsedJSON =
  jMerchant :: gostring
  jDate :: "gostring option"
  jCurrency :: gostring
  jItems :: "itemJSON list"
  jItemsSpare :: "itemJSON list"
  jSubtotal :: "rat option"
  jTax :: "rat option"
  jTotal :: "rat option"

definition zero_itemJSON :: itemJSON where
  "zero_itemJSON = \<lparr>jRaw = [], jName = [], jQty = None, jUnitPrice = None\<rparr>"

definition zero_parsedJSON :: parsedJSON where
  "zero_parsedJSON =
     \<lparr>jMerchant = [], jDate = None, jCurrency = [], jItems = [], jItemsSpare = [],
      jSubtotal = None, jTax = None, jTotal = None\<rparr>"

definition store_item_member :: "gostring \<Rightarrow> json \<Rightarrow> itemJSON \<Rightarrow> json_error + itemJSON" where
  "store_item_member key v item =
     (if names_field key ''raw'' then
        map_sum id (\<lambda>s. item\<lparr>jRaw := s\<rparr>) (store_string v (jRaw item))
      else if names_field key ''name'' then
        map_sum id (\<lambda>s. item\<lparr>jName := s\<rparr>) (store_string v (jName item))
      else if names_field key ''qty'' then
        map_sum id (\<lambda>q. item\<lparr>jQty := q\<rparr>) (store_float64_ptr v)
      else if names_field key ''unit_price'' then
        map_sum id (\<lambda>q. item\<lparr>jUnitPrice := q\<rparr>) (store_float64_ptr v)
      else Inr item)"

fun store_item_members :: "(gostring \<times> json) list \<Rightarrow> itemJSON \<Rightarrow> json_error + itemJSON" where
  "store_item_members [] item = Inr item"
| "store_item_members ((key, v) # members) item =
     (case store_item_member key v item of
        Inl err \<Rightarrow> Inl err
      | Inr item' \<Rightarrow> store_item_members members item')"

definition store_item :: "json \<Rightarrow> itemJSON \<Rightarrow> json_error + itemJSON" where
  "store_item v item =
     (case v of
        JNull \<Rightarrow> Inr item
      | JObject members \<Rightarrow> store_item_members members item
      | _ \<Rightarrow> Inl (UnmarshalTypeError (kind_of v) (lit ''server.itemJSON'')))"

text \<open>
  An array is stored into a slice element by element: element \<open>i\<close> of the array goes
  into element \<open>i\<close> of the backing array as it is (a zero value where nothing was stored
  before), and the slice is cut to the length of the array. The result is the new slice
  and what remains of the backing array behind it.
\<close>

fun store_elements ::
  "json list \<Rightarrow> itemJSON list \<Rightarrow> json_error + (itemJSON list \<times> itemJSON list)" where
  "store_elements [] backing = Inr ([], backing)"
| "store_elements (v # vs) backing =
     (case store_item v (case backing of [] \<Rightarrow> zero_itemJSON | old # _ \<Rightarrow> old) of
        Inl err \<Rightarrow> Inl err
      | Inr item \<Rightarrow>
          (case store_elements vs (drop 1 backing) of
             Inl err \<Rightarrow> Inl err
           | Inr (items, rest) \<Rightarrow> Inr (item # items, rest)))"

definition store_items ::
  "json \<Rightarrow> itemJSON list \<times> itemJSON list \<Rightarrow> json_error + (itemJSON list \<times> itemJSON list)" where
  "store_items v slice =
     (case v of
        JNull \<Rightarrow> Inr ([], [])
      | JArray vs \<Rightarrow> if vs = [] then Inr ([], []) else store_elements vs (fst slice @ snd slice)
      | _ \<Rightarrow> Inl (UnmarshalTypeError (kind_of v) (lit ''[]server.itemJSON'')))"

definition store_member :: "gostring \<Rightarrow> json \<Rightarrow> parsedJSON \<Rightarrow> json_error + parsedJSON" where
  "store_member key v p =
     (if names_field key ''merchant'' then
        map_sum id (\<lambda>s. p\<lparr>jMerchant := s\<rparr>) (store_string v (jMerchant p))
      else if names_field key ''date'' then
        map_sum id (\<lambda>d. p\<lparr>jDate := d\<rparr>) (store_string_ptr v)
      else if names_field key ''currency'' then
        map_sum id (\<lambda>s. p\<lparr>jCurrency := s\<rparr>) (store_string v (jCurrency p))
      else if names_field key ''items'' then
        map_sum id (\<lambda>(items, spare). p\<lparr>jItems := items, jItemsSpare := spare\<rparr>)
          (store_items v (jItems p, jItemsSpare p))
      else if names_field key ''subtotal'' then
        map_sum id (\<lambda>q. p\<lparr>jSubtotal := q\<rparr>) (store_float64_ptr v)
      else if names_field key ''tax'' then
        map_sum id (\<lambda>q. p\<lparr>jTax := q\<rparr>) (store_float64_ptr v)
      else if names_field key ''total'' then
        map_sum id (\<lambda>q. p\<lparr>jTotal := q\<rparr>) (store_float64_ptr v)
      else Inr p)"

fun store_members :: "(gostring \<times> json) list \<Rightarrow> parsedJSON \<Rightarrow> json_error + parsedJSON" where
  "store_members [] p = Inr p"
| "store_members ((key, v) # members) p =
     (case store_member key v p of
        Inl err \<Rightarrow> Inl err
      | Inr p' \<Rightarrow> store_members members p')"

definition Unmarshal :: "scanner \<Rightarrow> gostring \<Rightarrow> parsedJSON \<Rightarrow> json_error + parsedJSON" where
  "Unmarshal scan data p =
     (case scan data of
        Inl msg \<Rightarrow> Inl (SyntaxError msg)
      | Inr v \<Rightarrow>
          (case v of
             JNull \<Rightarrow> Inr p
           | JObject members \<Rightarrow> store_members members p
           | _ \<Rightarrow> Inl (UnmarshalTypeError (kind_of v) (lit ''server.parsedJSON''))))"

subsection \<open>parseResponse\<close>

definition zero_ParsedReceipt :: ParsedReceipt where
  "zero_ParsedReceipt =
     \<lparr>Merchant = None, Date = None, Currency = None, Items = [], Subtotal = None,
      Tax = None, Total = None, Confidence = 0\<rparr>"

text \<open>The body of the loop over \<^verbatim>\<open>p.Items\<close>: the message built from one item.\<close>

definition pbItem :: "itemJSON \<Rightarrow> ParsedItem" where
  "pbItem item =
     (let pb = \<lparr>Raw = jRaw item, Name = None, Qty = 0, UnitPrice = 0\<rparr>;
          pb = (if jName item \<noteq> [] then pb\<lparr>Name := Some (jName item)\<rparr> else pb);
          pb = (case jQty item of Some q \<Rightarrow> pb\<lparr>Qty := q\<rparr> | None \<Rightarrow> pb\<lparr>Qty := 1\<rparr>);
          pb = (case jUnitPrice item of Some u \<Rightarrow> pb\<lparr>UnitPrice := u\<rparr> | None \<Rightarrow> pb)
      in pb)"

fun append_items :: "itemJSON list \<Rightarrow> ParsedItem list \<Rightarrow> ParsedItem list" where
  "append_items [] items = items"
| "append_items (item # rest) items = append_items rest (items @ [pbItem item])"

text \<open>The part of \<^verbatim>\<open>parseResponse\<close> that follows the decoding.\<close>

definition receipt_of :: "parsedJSON \<Rightarrow> ParsedReceipt" where
  "receipt_of p =
     (let receipt = zero_ParsedReceipt;
          receipt = (if jMerchant p \<noteq> [] then receipt\<lparr>Merchant := Some (jMerchant p)\<rparr> else receipt);
          receipt = (if jDate p \<noteq> None then receipt\<lparr>Date := jDate p\<rparr> else receipt);
          receipt = (if jCurrency p \<noteq> [] then receipt\<lparr>Currency := Some (jCurrency p)\<rparr> else receipt);
          receipt = (if jSubtotal p \<noteq> None then receipt\<lparr>Subtotal := jSubtotal p\<rparr> else receipt);
          receipt = (if jTax p \<noteq> None then receipt\<lparr>Tax := jTax p\<rparr> else receipt);
          receipt = (if jTotal p \<noteq> None then receipt\<lparr>Total := jTotal p\<rparr> else receipt)
      in receipt\<lparr>Items := append_items (jItems p) (Items receipt)\<rparr>)"

text \<open>The error of \<^verbatim>\<open>parseResponse\<close> is modelled by its text.\<close>

definition parseResponse :: "scanner \<Rightarrow> gostring \<Rightarrow> gostring + ParsedReceipt" where
  "parseResponse scan raw =
     (let jsonStr = extractJSON raw
      in case Unmarshal scan jsonStr zero_parsedJSON of
           Inl err \<Rightarrow> Inl (lit ''invalid JSON: '' @ Error_text err)
         | Inr p \<Rightarrow> Inr (receipt_of p))"

subsection \<open>calcConfidence\<close>

text \<open>The loop \<^verbatim>\<open>for _, item := range r.Items { sum += item.Qty * item.UnitPrice }\<close>,
  with the running sum \<open>sm\<close> as accumulator.\<close>

fun items_sum :: "ParsedItem list \<Rightarrow> rat \<Rightarrow> rat" where
  "items_sum [] sm = sm"
| "items_sum (item # rest) sm = items_sum rest (sm + Qty item * UnitPrice item)"

text \<open>The guard of the bonus block together with \<^verbatim>\<open>withinTolerance\<close>.\<close>

definition withinTolerance :: "ParsedReceipt \<Rightarrow> bool" where
  "withinTolerance r =
     (case Subtotal r of
        None \<Rightarrow> False
      | Some subtotal \<Rightarrow>
          if length (Items r) > 0 then
            (let sm = items_sum (Items r) 0;
                 diff = \<bar>sm - subtotal\<bar>
             in diff \<le> subtotal * 0.05)
          else False)"

definition calcConfidence :: "ParsedReceipt \<Rightarrow> rat" where
  "calcConfidence r =
     (let score = 0.5;
          score = (if Merchant r \<noteq> None then score + 0.1 else score);
          score = (if Date r \<noteq> None then score + 0.1 else score);
          score = (if Total r \<noteq> None then score + 0.1 else score);
          score = (if length (Items r) > 0 then score + 0.1 else score);
          score = (if withinTolerance r then score + 0.1 else score)
      in if score > 1.0 then 1.0 else score)"

text \<open>The spec's reading of the score: one tenth per qualifying term.\<close>

definition spec_reconciled :: "ParsedReceipt \<Rightarrow> bool" where
  "spec_reconciled r =
     (Subtotal r \<noteq> None \<and> Items r \<noteq> [] \<and>
      \<bar>(\<Sum>item\<leftarrow>Items r. Qty item * UnitPrice item) - the (Subtotal r)\<bar>
        \<le> 0.05 * the (Subtotal r))"

definition spec_terms :: "ParsedReceipt \<Rightarrow> nat" where
  "spec_terms r =
     of_bool (Merchant r \<noteq> None) + of_bool (Date r \<noteq> None) + of_bool (Total r \<noteq> None)
     + of_bool (Items r \<noteq> []) + of_bool (spec_reconciled r)"


subsection \<open>Contexts\<close>

text \<open>
  A \<^verbatim>\<open>context.Context\<close> is described by the instant of its deadline, if it has one,
  and the instant at which it is cancelled, if it ever is. Instants count nanoseconds
  from the arrival of the request. \<open>ctx_Err ctx now\<close> is \<^verbatim>\<open>ctx.Err()\<close> read at the
  instant \<open>now\<close>: the error of whichever of the two events came first.
\<close>

datatype ctx_error = Canceled | DeadlineExceeded

record Context =
  ctx_deadline :: "nat option"
  ctx_canceled_at :: "nat option"

definition WithTimeout :: "Context \<Rightarrow> nat \<Rightarrow> nat \<Rightarrow> Context" where
  "WithTimeout parent now d =
     parent\<lparr>ctx_deadline :=
       Some (case ctx_deadline parent of None \<Rightarrow> now + d | Some t \<Rightarrow> min t (now + d))\<rparr>"

definition ctx_Err :: "Context \<Rightarrow> nat \<Rightarrow> ctx_error option" where
  "ctx_Err ctx now =
     (case (ctx_canceled_at ctx, ctx_deadline ctx) of
        (None, None) \<Rightarrow> None
      | (Some c, None) \<Rightarrow> if c \<le> now then Some Canceled else None
      | (None, Some d) \<Rightarrow> if d \<le> now then Some DeadlineExceeded else None
      | (Some c, Some d) \<Rightarrow>
          if c \<le> now \<and> c < d then Some Canceled
          else if d \<le> now then Some DeadlineExceeded
          else None)"

subsection \<open>The server and its backends\<close>

definition maxImageSize :: nat where
  "maxImageSize = 5 * 2 ^ 20"

definition timeout :: nat where
  "timeout = 5 * 60 * 10 ^ 9"

definition prompt :: gostring where
  "prompt = concat (map (\<lambda>line. lit line @ [10])
     [''Look at this receipt image and extract all information as JSON.'',
      [],
      ''Return ONLY valid JSON in this exact format (no markdown, no backticks, no explanation):'',
      ''{'',
      ''  \"merchant\": \"Store Name\",'',
      ''  \"date\": \"YYYY-MM-DD\",'',
      ''  \"currency\": \"CAD\",'',
      ''  \"items\": ['',
      ''    {\"raw\": \"KIRKLAND ORG EGGS 2DZ\", \"name\": \"Organic Eggs 2 Dozen\", \"qty\": 1.0, \"unit_price\": 8.99}'',
      ''  ],'',
      ''  \"subtotal\": 45.67,'',
      ''  \"tax\": 5.94,'',
      ''  \"total\": 51.61'',
      ''}'',
      [],
      ''Rules:'',
      ''- \"raw\" is exactly as printed on receipt'',
      ''- \"name\" is your best guess at the full product name'',
      ''- \"qty\" defaults to 1.0 if not specified'',
      ''- \"unit_price\" is price per unit'',
      ''- \"currency\" is 3-letter ISO code'',
      ''- \"date\" is YYYY-MM-DD if visible, otherwise null'',
      ''- Use null for values you cannot read'']) @ lit ''- Skip items with $0.00 price''"

type_synonym bytes = "nat list"

record GenerateRequest =
  gModel :: gostring
  gPrompt :: gostring
  gImages :: "bytes list"
  gStream :: "bool option"

datatype Part = Text gostring | InlineData gostring bytes

text \<open>
  A client is its behaviour. \<open>ollama_Generate\<close> answers with the responses it hands to
  the callback, its error if it fails, and the instant at which it returns;
  \<open>gemini_GenerateContent\<close> with its error or the text of the response, and the instant
  at which it returns; \<open>ollama_List\<close> with its error if it fails.
\<close>

record ollama_client =
  ollama_Generate :: "Context \<Rightarrow> GenerateRequest \<Rightarrow> (gostring list \<times> gostring option) \<times> nat"
  ollama_List :: "Context \<Rightarrow> gostring option"

record gemini_client =
  gemini_GenerateContent :: "Context \<Rightarrow> gostring \<Rightarrow> Part list \<Rightarrow> (gostring + gostring) \<times> nat"

text \<open>The logger is left out: log lines are not part of the model.\<close>

record Server =
  ollama :: "ollama_client option"
  gemini :: "gemini_client option"
  model :: gostring

text \<open>The calls that reach a backend, in the order they are made.\<close>

datatype backend_call =
    Ollama_Generate Context GenerateRequest
  | Ollama_List Context
  | Gemini_GenerateContent Context gostring "Part list"

text \<open>
  What \<^verbatim>\<open>callModel\<close> comes back with: the text, an error (by its message), or the
  panic of a call through a nil client.
\<close>

datatype model_result = ModelText gostring | ModelError gostring | NilClientPanic

definition callOllama ::
  "Server \<Rightarrow> Context \<Rightarrow> bytes \<Rightarrow> (model_result \<times> nat) \<times> backend_call list" where
  "callOllama s ctx imageData =
     (let stream = False;
          req = \<lparr>gModel = model s, gPrompt = prompt, gImages = [imageData],
                 gStream = Some stream\<rparr>
      in case ollama s of
           None \<Rightarrow> ((NilClientPanic, 0), [])
         | Some client \<Rightarrow>
             (let ((responses, err), returned_at) = ollama_Generate client ctx req;
                  result = fold (\<lambda>resp result. resp) responses []
              in ((case err of
                     Some msg \<Rightarrow> ModelError (lit ''ollama: '' @ msg)
                   | None \<Rightarrow> ModelText result, returned_at),
                  [Ollama_Generate ctx req])))"

definition callGemini ::
  "Server \<Rightarrow> Context \<Rightarrow> bytes \<Rightarrow> gostring \<Rightarrow> (model_result \<times> nat) \<times> backend_call list" where
  "callGemini s ctx imageData contentType =
     (let parts = [Text prompt, InlineData contentType imageData]
      in case gemini s of
           None \<Rightarrow> ((NilClientPanic, 0), [])
         | Some client \<Rightarrow>
             (let (resp, returned_at) = gemini_GenerateContent client ctx (model s) parts
              in ((case resp of
                     Inl msg \<Rightarrow> ModelError (lit ''gemini: '' @ msg)
                   | Inr text \<Rightarrow> ModelText text, returned_at),
                  [Gemini_GenerateContent ctx (model s) parts])))"

definition callModel ::
  "Server \<Rightarrow> Context \<Rightarrow> bytes \<Rightarrow> gostring \<Rightarrow> (model_result \<times> nat) \<times> backend_call list" where
  "callModel s ctx imageData contentType =
     (if gemini s \<noteq> None then callGemini s ctx imageData contentType
      else callOllama s ctx imageData)"

subsection \<open>The handlers\<close>

datatype OCRErrorCode =
    OCR_ERROR_UNSPECIFIED
  | OCR_ERROR_INVALID_IMAGE
  | OCR_ERROR_TIMEOUT
  | OCR_ERROR_MODEL_ERROR
  | OCR_ERROR_PARSE_FAILED

record OCRError =
  Code :: OCRErrorCode
  Message :: gostring

record ParseReceiptRequest =
  ImageData :: bytes
  ContentType :: gostring

record ParseReceiptResponse =
  Success :: bool
  Data :: "ParsedReceipt option"
  Error :: "OCRError option"

record HealthResponse =
  Status :: gostring
  Model :: gostring

text \<open>
  A handler returns a response together with a Go error (nil is \<open>None\<close>), which gRPC
  would send as a transport status; or it panics.
\<close>

datatype 'r handler_result = Returned 'r "gostring option" | Panics

definition errorResponse :: "OCRErrorCode \<Rightarrow> gostring \<Rightarrow> ParseReceiptResponse" where
  "errorResponse code msg =
     \<lparr>Success = False, Data = None, Error = Some \<lparr>Code = code, Message = msg\<rparr>\<rparr>"

definition cmp_Or :: "gostring \<Rightarrow> gostring \<Rightarrow> gostring" where
  "cmp_Or a b = (if a \<noteq> [] then a else b)"

definition ParseReceipt ::
  "Server \<Rightarrow> scanner \<Rightarrow> Context \<Rightarrow> ParseReceiptRequest
     \<Rightarrow> ParseReceiptResponse handler_result \<times> backend_call list" where
  "ParseReceipt s scan ctx req =
     (let imageSize = length (ImageData req)
      in if imageSize = 0 then
           (Returned (errorResponse OCR_ERROR_INVALID_IMAGE (lit ''empty image'')) None, [])
         else if imageSize > maxImageSize then
           (Returned (errorResponse OCR_ERROR_INVALID_IMAGE (lit ''image exceeds 5MB limit'')) None, [])
         else
           (let ctx = WithTimeout ctx 0 timeout;
                contentType = cmp_Or (ContentType req) (lit ''image/jpeg'');
                ((raw, returned_at), calls) = callModel s ctx (ImageData req) contentType
            in (case raw of
                  NilClientPanic \<Rightarrow> Panics
                | ModelError err \<Rightarrow>
                    if ctx_Err ctx returned_at = Some DeadlineExceeded
                    then Returned (errorResponse OCR_ERROR_TIMEOUT (lit ''inference timeout'')) None
                    else Returned (errorResponse OCR_ERROR_MODEL_ERROR err) None
                | ModelText raw \<Rightarrow>
                    (case parseResponse scan raw of
                       Inl err \<Rightarrow> Returned (errorResponse OCR_ERROR_PARSE_FAILED err) None
                     | Inr receipt \<Rightarrow>
                         Returned \<lparr>Success = True,
                                   Data = Some (receipt\<lparr>Confidence := calcConfidence receipt\<rparr>),
                                   Error = None\<rparr> None),
                calls)))"

definition Health ::
  "Server \<Rightarrow> Context \<Rightarrow> HealthResponse handler_result \<times> backend_call list" where
  "Health s ctx =
     (case ollama s of
        Some client \<Rightarrow>
          (let ctx = WithTimeout ctx 0 (5 * 10 ^ 9)
           in case ollama_List client ctx of
                Some err \<Rightarrow>
                  (Returned \<lparr>Status = lit ''unhealthy'', Model = model s\<rparr> None, [Ollama_List ctx])
              | None \<Rightarrow>
                  (Returned \<lparr>Status = lit ''ok'', Model = model s\<rparr> None, [Ollama_List ctx]))
      | None \<Rightarrow> (Returned \<lparr>Status = lit ''ok'', Model = model s\<rparr> None, []))"

subsection \<open>Reference predicates\<close>

text \<open>
  What it means for a JSON value to fit the types of the schema, written without
  reference to the decoder: \<^verbatim>\<open>null\<close> fits every field, a string fits a string field,
  a number within the range of \<^verbatim>\<open>float64\<close> fits a number field, an array of objects
  (or \<^verbatim>\<open>null\<close>s) whose members fit the item fields fits \<^verbatim>\<open>items\<close>; a member whose
  key names no field is not looked at.
\<close>

fun fits_string :: "json \<Rightarrow> bool" where
  "fits_string JNull = True"
| "fits_string (JString _) = True"
| "fits_string _ = False"

fun fits_float64 :: "json \<Rightarrow> bool" where
  "fits_float64 JNull = True"
| "fits_float64 (JNumber q) = (\<not> float64_out_of_range q)"
| "fits_float64 _ = False"

definition item_member_fits :: "gostring \<times> json \<Rightarrow> bool" where
  "item_member_fits m =
     (case m of (key, v) \<Rightarrow>
        if names_field key ''raw'' then fits_string v
        else if names_field key ''name'' then fits_string v
        else if names_field key ''qty'' then fits_float64 v
        else if names_field key ''unit_price'' then fits_float64 v
        else True)"

fun fits_item :: "json \<Rightarrow> bool" where
  "fits_item JNull = True"
| "fits_item (JObject members) = list_all item_member_fits members"
| "fits_item _ = False"

fun fits_items :: "json \<Rightarrow> bool" where
  "fits_items JNull = True"
| "fits_items (JArray vs) = list_all fits_item vs"
| "fits_items _ = False"

definition member_fits :: "gostring \<times> json \<Rightarrow> bool" where
  "member_fits m =
     (case m of (key, v) \<Rightarrow>
        if names_field key ''merchant'' then fits_string v
        else if names_field key ''date'' then fits_string v
        else if names_field key ''currency'' then fits_string v
        else if names_field key ''items'' then fits_items v
        else if names_field key ''subtotal'' then fits_float64 v
        else if names_field key ''tax'' then fits_float64 v
        else if names_field key ''total'' then fits_float64 v
        else True)"

fun fits_schema :: "json \<Rightarrow> bool" where
  "fits_schema JNull = True"
| "fits_schema (JObject members) = list_all member_fits members"
| "fits_schema _ = False"

text \<open>The JSON names of the fields of \<^verbatim>\<open>parsedJSON\<close>.\<close>

definition field_names :: "string list" where
  "field_names = [''merchant'', ''date'', ''currency'', ''items'', ''subtotal'', ''tax'', ''total'']"

text \<open>
  The deadline of a request that arrives with the context \<open>ctx\<close> is the earlier of the
  caller's deadline and five minutes after the arrival. It has passed at the instant
  \<open>now\<close> if it lies at or before \<open>now\<close> and the caller has not cancelled before it.
\<close>

definition deadline_passed :: "Context \<Rightarrow> nat \<Rightarrow> bool" where
  "deadline_passed ctx now =
     (let d = (case ctx_deadline ctx of None \<Rightarrow> timeout | Some t \<Rightarrow> min t timeout)
      in d \<le> now \<and> (case ctx_canceled_at ctx of None \<Rightarrow> True | Some c \<Rightarrow> d \<le> c))"

subsection \<open>Example backends and scanners\<close>

text \<open>Concrete backends and replies on which the properties below are evaluated.\<close>

definition idle_ollama :: ollama_client where
  "idle_ollama = \<lparr>ollama_Generate = (\<lambda>ctx req. (([], None), 0)), ollama_List = (\<lambda>ctx. None)\<rparr>"

definition reject_all :: scanner where
  "reject_all data = Inl (lit ''invalid character'')"

text \<open>A backend that gives up after one second, reporting that its context was cancelled.\<close>

definition cancelled_ollama :: ollama_client where
  "cancelled_ollama =
     \<lparr>ollama_Generate = (\<lambda>ctx req. (([], Some (lit ''context canceled'')), 10 ^ 9)),
      ollama_List = (\<lambda>ctx. Some (lit ''context canceled''))\<rparr>"

text \<open>A backend that fails when the five minutes are over.\<close>

definition slow_ollama :: ollama_client where
  "slow_ollama =
     \<lparr>ollama_Generate = (\<lambda>ctx req. (([], Some (lit ''context deadline exceeded'')), 5 * 60 * 10 ^ 9)),
      ollama_List = (\<lambda>ctx. Some (lit ''context deadline exceeded''))\<rparr>"


text \<open>
  Scanners that read one text each, as \<^verbatim>\<open>encoding/json\<close> reads it, and reject
  every other text.
\<close>

definition quoted_total_scan :: scanner where
  "quoted_total_scan data =
     (if data = lit ''{\"total\":\"51.61\"}''
      then Inr (JObject [(lit ''total'', JString (lit ''51.61''))])
      else Inl (lit ''invalid character''))"

definition extra_member_scan :: scanner where
  "extra_member_scan data =
     (if data = lit ''{\"merchant\":\"Acme\",\"cashier\":7}''
      then Inr (JObject [(lit ''merchant'', JString (lit ''Acme'')), (lit ''cashier'', JNumber 7)])
      else Inl (lit ''invalid character''))"


definition empty_strings_scan :: scanner where
  "empty_strings_scan data =
     (if data = lit ''{\"merchant\":\"\",\"currency\":\"\",\"items\":[{\"raw\":\"EGGS\",\"name\":\"\"}]}''
      then Inr (JObject [(lit ''merchant'', JString []), (lit ''currency'', JString []),
             (lit ''items'', JArray [JObject [(lit ''raw'', JString (lit ''EGGS'')),
                                              (lit ''name'', JString [])]])])
      else Inl (lit ''invalid character''))"

text \<open>A backend that replies with a complete receipt in a fenced block, and its scanner.\<close>

definition acme_reply :: gostring where
  "acme_reply = lit ''```json'' @ [10] @ lit ''{\"merchant\":\"Acme\",\"currency\":\"CAD\",\"items\":[{\"raw\":\"EGGS\",\"name\":\"Eggs\",\"qty\":1,\"unit_price\":4.5}],\"subtotal\":4.5,\"total\":4.5}'' @ [10] @ lit ''```''"

definition acme_ollama :: ollama_client where
  "acme_ollama =
     \<lparr>ollama_Generate = (\<lambda>ctx req.
        (([acme_reply], None), 10 ^ 9)),
      ollama_List = (\<lambda>ctx. None)\<rparr>"

definition acme_scan :: scanner where
  "acme_scan data =
     (if data = lit ''{\"merchant\":\"Acme\",\"currency\":\"CAD\",\"items\":[{\"raw\":\"EGGS\",\"name\":\"Eggs\",\"qty\":1,\"unit_price\":4.5}],\"subtotal\":4.5,\"total\":4.5}''
      then Inr (JObject [(lit ''merchant'', JString (lit ''Acme'')), (lit ''currency'', JString (lit ''CAD'')),
             (lit ''items'', JArray [JObject [(lit ''raw'', JString (lit ''EGGS'')),
                (lit ''name'', JString (lit ''Eggs'')), (lit ''qty'', JNumber 1),
                (lit ''unit_price'', JNumber 4.5)]]),
             (lit ''subtotal'', JNumber 4.5), (lit ''total'', JNumber 4.5)])
      else Inl (lit ''invalid character''))"

section \<open>Properties\<close>

subsection \<open>Fence stripping\<close>

lemma fence_code: "fence = [96, 96, 96]"
  by (simp add: fence_def lit_def)

lemma json_code: "lit ''json'' = [106, 115, 111, 110]"
  by (simp add: lit_def)


lemma drop_within: "n \<le> length xs \<Longrightarrow> drop n (xs @ ys) = drop n xs @ ys"
  by simp

lemma IsSpace_newline: "IsSpace 10"
  by (simp add: IsSpace_def)

lemma HasPrefix_fence_length: "HasPrefix s fence \<Longrightarrow> 3 \<le> length s"
proof -
  assume "HasPrefix s fence"
  then have "take (length fence) s = fence"
    by (simp only: HasPrefix_def)
  then have "length (take (length fence) s) = length fence"
    by (rule arg_cong)
  moreover have "length fence = 3"
    by (simp add: fence_code)
  ultimately show ?thesis by simp
qed

lemma HasPrefix_fence_append:
  "HasPrefix (xs @ 10 # ys) fence = HasPrefix xs fence"
proof (cases "length xs \<ge> 3")
  case True
  then show ?thesis by (simp add: HasPrefix_def fence_code)
next
  case False
  then consider "xs = []" | a where "xs = [a]" | a b where "xs = [a, b]"
    by (cases xs; cases "tl xs"; cases "tl (tl xs)") auto
  then show ?thesis
    by cases (auto simp: HasPrefix_def fence_code)
qed

lemma skip_json_append:
  "skip_json (xs @ 10 # ys) = skip_json xs @ 10 # ys"
proof (cases "length xs \<ge> 4")
  case True
  then show ?thesis by (simp add: skip_json_def HasPrefix_def json_code)
next
  case False
  then consider "xs = []" | a where "xs = [a]" | a b where "xs = [a, b]"
    | a b c where "xs = [a, b, c]"
    by (cases xs; cases "tl xs"; cases "tl (tl xs)"; cases "tl (tl (tl xs))") auto
  then show ?thesis
    by cases (auto simp: skip_json_def HasPrefix_def json_code)
qed

lemma codeBlockRe_closing_fence:
  "codeBlockRe_ReplaceAll (xs @ [10, 96, 96, 96]) = codeBlockRe_ReplaceAll xs @ [10]
   \<or> codeBlockRe_ReplaceAll (xs @ [10, 96, 96, 96]) = codeBlockRe_ReplaceAll xs"
proof (induction xs rule: codeBlockRe_ReplaceAll.induct)
  case 1
  show ?case by (simp add: HasPrefix_def fence_code skip_json_def json_code)
next
  case (2 c cs)
  show ?case
  proof (cases "HasPrefix (c # cs) fence")
    case False
    then have "\<not> HasPrefix ((c # cs) @ [10, 96, 96, 96]) fence"
      unfolding HasPrefix_fence_append .
    with False 2(2) show ?thesis by simp
  next
    case True
    define r where "r = skip_json (drop 3 (c # cs))"
    from True have len: "length (c # cs) \<ge> 3"
      by (rule HasPrefix_fence_length)
    have pre: "HasPrefix ((c # cs) @ [10, 96, 96, 96]) fence"
      using True unfolding HasPrefix_fence_append .
    have dr: "skip_json (drop 3 ((c # cs) @ [10, 96, 96, 96])) = r @ [10, 96, 96, 96]"
      unfolding drop_within [OF len] r_def by (rule skip_json_append)
    have lhs: "codeBlockRe_ReplaceAll ((c # cs) @ [10, 96, 96, 96])
               = codeBlockRe_ReplaceAll (dropWhile re_space (r @ [10, 96, 96, 96]))"
      using pre dr by simp
    have rhs: "codeBlockRe_ReplaceAll (c # cs) = codeBlockRe_ReplaceAll (dropWhile re_space r)"
      using True by (simp add: r_def)
    show ?thesis
    proof (cases "\<forall>x\<in>set r. re_space x")
      case True
      then have "dropWhile re_space (r @ [10, 96, 96, 96]) = dropWhile re_space [10, 96, 96, 96]"
        by (intro dropWhile_append2) blast
      then have l: "dropWhile re_space (r @ [10, 96, 96, 96]) = [96, 96, 96]"
        by (simp add: re_space_def)
      from True have e: "dropWhile re_space r = []"
        by (simp only: dropWhile_eq_Nil_conv)
      show ?thesis
        unfolding lhs rhs l e by (simp add: HasPrefix_def fence_code skip_json_def json_code)
    next
      case False
      then have "dropWhile re_space (r @ [10, 96, 96, 96]) = dropWhile re_space r @ [10, 96, 96, 96]"
        by (auto simp: dropWhile_append1)
      with 2(1) [OF True] show ?thesis
        unfolding lhs rhs r_def by simp
    qed
  qed
qed

lemma ReplaceAll_fence_newline:
  "ReplaceAll_fence (xs @ [10]) = ReplaceAll_fence xs @ [10]"
proof (induction xs rule: ReplaceAll_fence.induct)
  case 1
  show ?case by (simp add: HasPrefix_def fence_code)
next
  case (2 c cs)
  have pre: "HasPrefix ((c # cs) @ [10]) fence = HasPrefix (c # cs) fence"
    by (rule HasPrefix_fence_append)
  show ?case
  proof (cases "HasPrefix (c # cs) fence")
    case True
    then have "length (c # cs) \<ge> 3"
      by (rule HasPrefix_fence_length)
    then have "drop 3 ((c # cs) @ [10]) = drop 3 (c # cs) @ [10]"
      by (rule drop_within)
    with True pre 2(1) show ?thesis by (simp del: drop_Suc_Cons)
  next
    case False
    with pre 2(2) show ?thesis by simp
  qed
qed

lemma TrimSpace_newline: "TrimSpace (xs @ [10]) = TrimSpace xs"
proof (cases "\<forall>x\<in>set xs. IsSpace x")
  case True
  then have "dropWhile IsSpace (xs @ [10]) = dropWhile IsSpace [10]"
    by (intro dropWhile_append2) blast
  then have l: "dropWhile IsSpace (xs @ [10]) = []"
    by (simp add: IsSpace_newline)
  from True have e: "dropWhile IsSpace xs = []"
    by (simp only: dropWhile_eq_Nil_conv)
  show ?thesis
    unfolding TrimSpace_def l e ..
next
  case False
  then have "dropWhile IsSpace (xs @ [10]) = dropWhile IsSpace xs @ [10]"
    by (auto simp: dropWhile_append1)
  then show ?thesis
    by (simp add: TrimSpace_def IsSpace_newline)
qed

lemma extractJSON_closing_fence:
  "extractJSON (xs @ [10, 96, 96, 96]) = extractJSON xs"
  using codeBlockRe_closing_fence [of xs]
  by (auto simp: extractJSON_def ReplaceAll_fence_newline TrimSpace_newline)

lemma codeBlockRe_opening_fence:
  "codeBlockRe_ReplaceAll (lit ''```json'' @ [10] @ 123 # ys) = codeBlockRe_ReplaceAll (123 # ys)"
  "codeBlockRe_ReplaceAll (lit ''```'' @ [10] @ 123 # ys) = codeBlockRe_ReplaceAll (123 # ys)"
  by (simp_all add: lit_def HasPrefix_def fence_def skip_json_def re_space_def)

lemma extractJSON_fenced:
  "extractJSON (lit ''```json'' @ [10] @ 123 # body @ [125] @ [10] @ lit ''```'')
     = extractJSON (123 # body @ [125])"
  "extractJSON (lit ''```'' @ [10] @ 123 # body @ [125] @ [10] @ lit ''```'')
     = extractJSON (123 # body @ [125])"
proof -
  have c: "123 # body @ [125] @ [10] @ lit ''```'' = (123 # body @ [125]) @ [10, 96, 96, 96]"
    by (simp add: lit_def)
  have "extractJSON (lit ''```json'' @ [10] @ 123 # body @ [125] @ [10] @ lit ''```'')
     = extractJSON ((123 # body @ [125]) @ [10, 96, 96, 96])"
    unfolding extractJSON_def codeBlockRe_opening_fence c [symmetric] ..
  then show "extractJSON (lit ''```json'' @ [10] @ 123 # body @ [125] @ [10] @ lit ''```'')
     = extractJSON (123 # body @ [125])"
    by (simp only: extractJSON_closing_fence)
  have "extractJSON (lit ''```'' @ [10] @ 123 # body @ [125] @ [10] @ lit ''```'')
     = extractJSON ((123 # body @ [125]) @ [10, 96, 96, 96])"
    unfolding extractJSON_def codeBlockRe_opening_fence c [symmetric] ..
  then show "extractJSON (lit ''```'' @ [10] @ 123 # body @ [125] @ [10] @ lit ''```'')
     = extractJSON (123 # body @ [125])"
    by (simp only: extractJSON_closing_fence)
qed

text \<open>
  Claim C5. For every text \<open>j\<close> that starts with an opening brace and ends with a
  closing brace, \<open>j\<close> bare, \<open>j\<close> in a fenced block tagged \<^verbatim>\<open>json\<close> and \<open>j\<close> in a
  plain fenced block give the same extracted text, and so the same result of
  \<^verbatim>\<open>parseResponse\<close>, whatever the decoder makes of that text.
\<close>

theorem fence_wrapping_is_noop:
  "extractJSON (lit ''```json'' @ [10] @ 123 # body @ [125] @ [10] @ lit ''```'')
     = extractJSON (123 # body @ [125])
   \<and> extractJSON (lit ''```'' @ [10] @ 123 # body @ [125] @ [10] @ lit ''```'')
     = extractJSON (123 # body @ [125])
   \<and> parseResponse scan (lit ''```json'' @ [10] @ 123 # body @ [125] @ [10] @ lit ''```'')
     = parseResponse scan (123 # body @ [125])
   \<and> parseResponse scan (lit ''```'' @ [10] @ 123 # body @ [125] @ [10] @ lit ''```'')
     = parseResponse scan (123 # body @ [125])"
  unfolding parseResponse_def extractJSON_fenced by simp

subsection \<open>Scoring\<close>



lemma spec_terms_le: "spec_terms r \<le> 5"
  by (simp add: spec_terms_def of_bool_def)







subsection \<open>Decoding\<close>

lemmas store_eval =
  Unmarshal_def store_member_def store_items_def store_item_def store_item_member_def
  store_string_def store_string_ptr_def store_float64_ptr_def names_field_def foldName_def
  foldRune_def zero_parsedJSON_def zero_itemJSON_def lit_def

lemmas extract_eval =
  extractJSON_def HasPrefix_def fence_def TrimSpace_def IsSpace_def lit_def

text \<open>Whether a store fails depends on the value alone, not on what the target holds.\<close>

lemma store_string_fits: "isl (store_string v old) = (\<not> fits_string v)"
  by (cases v) (simp_all add: store_string_def)

lemma store_string_ptr_fits: "isl (store_string_ptr v) = (\<not> fits_string v)"
  by (cases v) (simp_all add: store_string_ptr_def)

lemma store_float64_ptr_fits: "isl (store_float64_ptr v) = (\<not> fits_float64 v)"
  by (cases v) (simp_all add: store_float64_ptr_def)

lemma isl_map_sum: "isl (map_sum f g x) = isl x"
  by (cases x) simp_all

lemma store_item_member_fits: "isl (store_item_member key v item) = (\<not> item_member_fits (key, v))"
  by (simp add: store_item_member_def item_member_fits_def isl_map_sum
        store_string_fits store_float64_ptr_fits)

lemma store_item_members_fits:
  "isl (store_item_members members item) = (\<not> list_all item_member_fits members)"
proof (induction members arbitrary: item)
  case Nil
  show ?case by simp
next
  case (Cons m members)
  obtain key v where m: "m = (key, v)" by (cases m)
  show ?case
  proof (cases "store_item_member key v item")
    case (Inl err)
    with store_item_member_fits [of key v item] show ?thesis
      by (simp add: m)
  next
    case (Inr item')
    with store_item_member_fits [of key v item] Cons.IH [of item'] show ?thesis
      by (simp add: m)
  qed
qed

lemma store_item_fits: "isl (store_item v item) = (\<not> fits_item v)"
  by (cases v) (simp_all add: store_item_def store_item_members_fits)

lemma store_elements_fits: "isl (store_elements vs backing) = (\<not> list_all fits_item vs)"
proof (induction vs arbitrary: backing)
  case Nil
  show ?case by simp
next
  case (Cons v vs)
  let ?old = "case backing of [] \<Rightarrow> zero_itemJSON | old # _ \<Rightarrow> old"
  show ?case
  proof (cases "store_item v ?old")
    case (Inl err)
    with store_item_fits [of v ?old] show ?thesis by simp
  next
    case (Inr item)
    with store_item_fits [of v ?old] Cons.IH [of "drop 1 backing"] show ?thesis
      by (cases "store_elements vs (drop 1 backing)") auto
  qed
qed

lemma store_items_fits: "isl (store_items v slice) = (\<not> fits_items v)"
  by (cases v) (simp_all add: store_items_def store_elements_fits)

lemma store_member_fits: "isl (store_member key v p) = (\<not> member_fits (key, v))"
  by (simp add: store_member_def member_fits_def isl_map_sum
        store_string_fits store_string_ptr_fits store_float64_ptr_fits store_items_fits)

lemma store_members_fits:
  "isl (store_members members p) = (\<not> list_all member_fits members)"
proof (induction members arbitrary: p)
  case Nil
  show ?case by simp
next
  case (Cons m members)
  obtain key v where m: "m = (key, v)" by (cases m)
  show ?case
  proof (cases "store_member key v p")
    case (Inl err)
    with store_member_fits [of key v p] show ?thesis
      by (simp add: m)
  next
    case (Inr p')
    with store_member_fits [of key v p] Cons.IH [of p'] show ?thesis
      by (simp add: m)
  qed
qed

lemma Unmarshal_fails:
  "isl (Unmarshal scan data p) = (case scan data of Inl msg \<Rightarrow> True | Inr v \<Rightarrow> \<not> fits_schema v)"
proof (cases "scan data")
  case (Inl msg)
  then show ?thesis by (simp add: Unmarshal_def)
next
  case (Inr v)
  then show ?thesis
    by (cases v) (simp_all add: Unmarshal_def store_members_fits)
qed

lemma parseResponse_isl:
  "isl (parseResponse scan raw)
     = (case scan (extractJSON raw) of Inl msg \<Rightarrow> True | Inr v \<Rightarrow> \<not> fits_schema v)"
  using Unmarshal_fails [of scan "extractJSON raw" zero_parsedJSON]
  by (cases "Unmarshal scan (extractJSON raw) zero_parsedJSON")
     (simp_all add: parseResponse_def Let_def)

lemma member_fits_unknown:
  "list_all (\<lambda>f. \<not> names_field key f) field_names \<Longrightarrow> member_fits (key, v)"
  by (simp add: field_names_def member_fits_def)

text \<open>
  Claim C6, as the code has it. \<^verbatim>\<open>parseResponse\<close> fails exactly when the extracted
  text is not syntactically valid JSON or its value does not fit the types of the
  schema (a value that is neither an object nor \<^verbatim>\<open>null\<close>, a field bound to a value
  of another kind than its type, a number out of the range of \<^verbatim>\<open>float64\<close>). It
  returns either the error or the record built from the completely decoded value. A
  member whose key names no field never changes whether an object fits, and taking a
  member away from an object that fits leaves an object that fits.
\<close>

theorem parseResponse_fails_iff:
  "isl (parseResponse scan raw)
     = (case scan (extractJSON raw) of Inl msg \<Rightarrow> True | Inr v \<Rightarrow> \<not> fits_schema v)
   \<and> (case Unmarshal scan (extractJSON raw) zero_parsedJSON of
         Inl err \<Rightarrow> parseResponse scan raw = Inl (lit ''invalid JSON: '' @ Error_text err)
       | Inr p \<Rightarrow> parseResponse scan raw = Inr (receipt_of p))
   \<and> (list_all (\<lambda>f. \<not> names_field key f) field_names \<longrightarrow>
        fits_schema (JObject (before @ (key, v) # after)) = fits_schema (JObject (before @ after)))
   \<and> (fits_schema (JObject (before @ m # after)) \<longrightarrow> fits_schema (JObject (before @ after)))"
proof -
  have "case Unmarshal scan (extractJSON raw) zero_parsedJSON of
         Inl err \<Rightarrow> parseResponse scan raw = Inl (lit ''invalid JSON: '' @ Error_text err)
       | Inr p \<Rightarrow> parseResponse scan raw = Inr (receipt_of p)"
    by (simp add: parseResponse_def Let_def split: sum.splits)
  then show ?thesis
    by (simp add: parseResponse_isl member_fits_unknown)
qed

text \<open>
  The claim as stated fails: the text \<^verbatim>\<open>{"total":"51.61"}\<close> is syntactically valid
  JSON, and \<^verbatim>\<open>parseResponse\<close> fails on it, because a string is bound to a number
  field.
\<close>

theorem parseResponse_type_mismatch_counterexample:
  "quoted_total_scan (extractJSON (lit ''{\"total\":\"51.61\"}''))
     = Inr (JObject [(lit ''total'', JString (lit ''51.61''))])
   \<and> parseResponse quoted_total_scan (lit ''{\"total\":\"51.61\"}'')
     = Inl (lit ''invalid JSON: json: cannot unmarshal string into Go value of type float64'')"
proof -
  have e: "extractJSON (lit ''{\"total\":\"51.61\"}'') = lit ''{\"total\":\"51.61\"}''"
    by (simp add: extractJSON_def lit_def HasPrefix_def fence_def TrimSpace_def IsSpace_def)
  show ?thesis
    unfolding parseResponse_def e Let_def
    by (simp add: quoted_total_scan_def Unmarshal_def store_member_def names_field_def
          foldName_def foldRune_def store_float64_ptr_def lit_def)
qed

lemma extractJSON_extra_member:
  "extractJSON (lit ''{\"merchant\":\"Acme\",\"cashier\":7}'') = lit ''{\"merchant\":\"Acme\",\"cashier\":7}''"
  by (simp add: extractJSON_def lit_def HasPrefix_def fence_def TrimSpace_def IsSpace_def)

theorem parseResponse_fails_iff_witness:
  "\<not> isl (parseResponse extra_member_scan (lit ''{\"merchant\":\"Acme\",\"cashier\":7}''))
   \<and> parseResponse extra_member_scan (lit ''{\"merchant\":\"Acme\",\"cashier\":7}'')
       = Inr (zero_ParsedReceipt\<lparr>Merchant := Some (lit ''Acme'')\<rparr>)
   \<and> list_all (\<lambda>f. \<not> names_field (lit ''cashier'') f) field_names
   \<and> fits_schema (JObject [(lit ''merchant'', JString (lit ''Acme'')), (lit ''cashier'', JNumber 7)])
   \<and> fits_schema (JObject [(lit ''merchant'', JString (lit ''Acme''))])
   \<and> fits_schema (JObject [])"
proof -
  let ?raw = "lit ''{\"merchant\":\"Acme\",\"cashier\":7}''"
  let ?m = "(lit ''merchant'', JString (lit ''Acme''))"
  note inst = parseResponse_fails_iff [of extra_member_scan ?raw "lit ''cashier''" "[?m]" "JNumber 7" "[]" ?m]
  have unknown: "list_all (\<lambda>f. \<not> names_field (lit ''cashier'') f) field_names"
    by (simp add: field_names_def names_field_def foldName_def foldRune_def lit_def)
  have scanned: "extra_member_scan (extractJSON ?raw) = Inr (JObject [?m, (lit ''cashier'', JNumber 7)])"
    by (simp add: extractJSON_extra_member extra_member_scan_def)
  have stored: "Unmarshal extra_member_scan (extractJSON ?raw) zero_parsedJSON
                  = Inr (zero_parsedJSON\<lparr>jMerchant := lit ''Acme''\<rparr>)"
    unfolding Unmarshal_def scanned
    by (simp add: store_member_def names_field_def foldName_def foldRune_def store_string_def lit_def)
  have built: "receipt_of (zero_parsedJSON\<lparr>jMerchant := lit ''Acme''\<rparr>)
                 = zero_ParsedReceipt\<lparr>Merchant := Some (lit ''Acme'')\<rparr>"
    by (simp add: receipt_of_def zero_parsedJSON_def zero_ParsedReceipt_def Let_def lit_def)
  have parsed: "parseResponse extra_member_scan ?raw
                  = Inr (zero_ParsedReceipt\<lparr>Merchant := Some (lit ''Acme'')\<rparr>)"
    using inst [THEN conjunct2, THEN conjunct1] by (simp add: stored built)
  have all: "fits_schema (JObject [?m, (lit ''cashier'', JNumber 7)])"
    using inst [THEN conjunct1] by (simp add: parsed scanned)
  have one: "fits_schema (JObject [?m])"
    using inst [THEN conjunct2, THEN conjunct2, THEN conjunct1] unknown all by simp
  have none: "fits_schema (JObject [])"
    by simp
  from unknown all one none parsed show ?thesis
    by simp
qed

lemma append_items_map: "append_items xs acc = acc @ map pbItem xs"
  by (induction xs arbitrary: acc) simp_all

lemma Items_receipt_of: "Items (receipt_of p) = map pbItem (jItems p)"
  by (simp add: receipt_of_def Let_def append_items_map zero_ParsedReceipt_def)

lemma pbItem_fields:
  "Raw (pbItem item) = jRaw item"
  "Name (pbItem item) = (if jName item = [] then None else Some (jName item))"
  "Qty (pbItem item) = (case jQty item of None \<Rightarrow> 1 | Some q \<Rightarrow> q)"
  "UnitPrice (pbItem item) = (case jUnitPrice item of None \<Rightarrow> 0 | Some u \<Rightarrow> u)"
  by (simp_all add: pbItem_def Let_def split: option.splits)

lemma receipt_of_strings:
  "Merchant (receipt_of p) = (if jMerchant p = [] then None else Some (jMerchant p))"
  "Currency (receipt_of p) = (if jCurrency p = [] then None else Some (jCurrency p))"
  by (simp_all add: receipt_of_def Let_def zero_ParsedReceipt_def)

lemma parseResponse_stored:
  "Unmarshal scan (extractJSON raw) zero_parsedJSON = Inr p
     \<Longrightarrow> parseResponse scan raw = Inr (receipt_of p)"
  by (simp add: parseResponse_def Let_def)

lemma names_field_distinct:
  "names_field key ''raw'' \<Longrightarrow> \<not> names_field key ''name''"
  "names_field key ''qty'' \<Longrightarrow> \<not> names_field key ''raw'' \<and> \<not> names_field key ''name''"
  "names_field key ''unit_price'' \<Longrightarrow>
     \<not> names_field key ''raw'' \<and> \<not> names_field key ''name'' \<and> \<not> names_field key ''qty''"
  "names_field key ''merchant'' \<Longrightarrow> \<not> names_field key ''date''"
  "names_field key ''currency'' \<Longrightarrow> \<not> names_field key ''merchant'' \<and> \<not> names_field key ''date''"
  by (auto simp: names_field_def foldName_def foldRune_def lit_def)






text \<open>
  Claim C10. When the decoding succeeds, the merchant of the record is absent exactly
  when the decoded merchant is the empty string, and likewise the currency and the name
  of every item. A member that binds the merchant or the currency (the name of an item)
  to the empty string at the head of an object decodes as the object without it: the
  record cannot tell an empty string from an omitted field.
\<close>

theorem parseResponse_empty_strings:
  "(Unmarshal scan (extractJSON raw) zero_parsedJSON = Inr p \<longrightarrow>
      (\<exists>r. parseResponse scan raw = Inr r \<and>
         Merchant r = (if jMerchant p = [] then None else Some (jMerchant p)) \<and>
         Currency r = (if jCurrency p = [] then None else Some (jCurrency p)) \<and>
         length (Items r) = length (jItems p) \<and>
         (\<forall>i<length (jItems p).
            Name (Items r ! i)
              = (if jName (jItems p ! i) = [] then None else Some (jName (jItems p ! i))))))
   \<and> (names_field key ''merchant'' \<or> names_field key ''currency'' \<longrightarrow>
        store_members ((key, JString []) # members) zero_parsedJSON
          = store_members members zero_parsedJSON)
   \<and> (names_field item_key ''name'' \<longrightarrow>
        store_item (JObject ((item_key, JString []) # item_members)) zero_itemJSON
          = store_item (JObject item_members) zero_itemJSON)"
proof (intro conjI impI)
  assume "Unmarshal scan (extractJSON raw) zero_parsedJSON = Inr p"
  then have "parseResponse scan raw = Inr (receipt_of p)"
    by (rule parseResponse_stored)
  then show "\<exists>r. parseResponse scan raw = Inr r \<and>
         Merchant r = (if jMerchant p = [] then None else Some (jMerchant p)) \<and>
         Currency r = (if jCurrency p = [] then None else Some (jCurrency p)) \<and>
         length (Items r) = length (jItems p) \<and>
         (\<forall>i<length (jItems p).
            Name (Items r ! i)
              = (if jName (jItems p ! i) = [] then None else Some (jName (jItems p ! i))))"
    by (simp add: Items_receipt_of pbItem_fields receipt_of_strings)
next
  assume "names_field key ''merchant'' \<or> names_field key ''currency''"
  then have "store_member key (JString []) zero_parsedJSON = Inr zero_parsedJSON"
    by (auto simp: store_member_def store_string_def zero_parsedJSON_def
             dest: names_field_distinct)
  then show "store_members ((key, JString []) # members) zero_parsedJSON
          = store_members members zero_parsedJSON"
    by simp
next
  assume "names_field item_key ''name''"
  then have "store_item_member item_key (JString []) zero_itemJSON = Inr zero_itemJSON"
    by (auto simp: store_item_member_def store_string_def zero_itemJSON_def
             dest: names_field_distinct)
  then show "store_item (JObject ((item_key, JString []) # item_members)) zero_itemJSON
          = store_item (JObject item_members) zero_itemJSON"
    by (simp add: store_item_def)
qed

theorem parseResponse_empty_strings_witness:
  "parseResponse empty_strings_scan
     (lit ''{\"merchant\":\"\",\"currency\":\"\",\"items\":[{\"raw\":\"EGGS\",\"name\":\"\"}]}'')
     = Inr (zero_ParsedReceipt\<lparr>Items :=
         [\<lparr>Raw = lit ''EGGS'', Name = None, Qty = 1, UnitPrice = 0\<rparr>]\<rparr>)
   \<and> store_members [(lit ''Merchant'', JString [])] zero_parsedJSON = Inr zero_parsedJSON
   \<and> store_item (JObject [(lit ''name'', JString [])]) zero_itemJSON = Inr zero_itemJSON"
proof -
  let ?raw = "lit ''{\"merchant\":\"\",\"currency\":\"\",\"items\":[{\"raw\":\"EGGS\",\"name\":\"\"}]}''"
  let ?p = "zero_parsedJSON\<lparr>jItems := [zero_itemJSON\<lparr>jRaw := lit ''EGGS''\<rparr>]\<rparr>"
  note inst = parseResponse_empty_strings
    [of empty_strings_scan ?raw ?p "lit ''Merchant''" "[]" "lit ''name''" "[]"]
  have e: "extractJSON ?raw = ?raw"
    by (simp add: extract_eval)
  have stored: "Unmarshal empty_strings_scan (extractJSON ?raw) zero_parsedJSON = Inr ?p"
    unfolding e by (simp add: empty_strings_scan_def store_eval)
  have names: "names_field (lit ''Merchant'') ''merchant''" "names_field (lit ''name'') ''name''"
    by (simp_all add: names_field_def foldName_def foldRune_def lit_def)
  from inst names
  have "store_members [(lit ''Merchant'', JString [])] zero_parsedJSON = Inr zero_parsedJSON"
    and "store_item (JObject [(lit ''name'', JString [])]) zero_itemJSON = Inr zero_itemJSON"
    by (simp_all add: store_item_def)
  moreover have "parseResponse empty_strings_scan ?raw
     = Inr (zero_ParsedReceipt\<lparr>Items :=
         [\<lparr>Raw = lit ''EGGS'', Name = None, Qty = 1, UnitPrice = 0\<rparr>]\<rparr>)"
    unfolding parseResponse_def Let_def stored
    by (simp add: receipt_of_def pbItem_def zero_parsedJSON_def zero_itemJSON_def
          zero_ParsedReceipt_def Let_def lit_def)
  ultimately show ?thesis
    by simp
qed

subsection \<open>The handlers\<close>

text \<open>
  Claim C1. A request whose image is empty or longer than 5 MiB is answered with the
  error code for an invalid image, and no call reaches a backend.
\<close>

theorem ParseReceipt_invalid_image:
  assumes "length (ImageData req) = 0 \<or> length (ImageData req) > 5 * 2 ^ 20"
  shows "\<exists>msg. ParseReceipt s scan ctx req
           = (Returned (errorResponse OCR_ERROR_INVALID_IMAGE msg) None, [])"
  using assms by (auto simp: ParseReceipt_def maxImageSize_def Let_def)

theorem ParseReceipt_invalid_image_witness:
  "ParseReceipt \<lparr>ollama = Some idle_ollama, gemini = None, model = lit ''qwen2.5vl:3b''\<rparr> reject_all
       \<lparr>ctx_deadline = None, ctx_canceled_at = None\<rparr> \<lparr>ImageData = [], ContentType = []\<rparr>
     = (Returned (errorResponse OCR_ERROR_INVALID_IMAGE (lit ''empty image'')) None, [])
   \<and> ParseReceipt \<lparr>ollama = Some idle_ollama, gemini = None, model = lit ''qwen2.5vl:3b''\<rparr> reject_all
       \<lparr>ctx_deadline = None, ctx_canceled_at = None\<rparr>
       \<lparr>ImageData = replicate (5 * 2 ^ 20 + 1) 0, ContentType = []\<rparr>
     = (Returned (errorResponse OCR_ERROR_INVALID_IMAGE (lit ''image exceeds 5MB limit'')) None, [])"
proof -
  let ?s = "\<lparr>ollama = Some idle_ollama, gemini = None, model = lit ''qwen2.5vl:3b''\<rparr>"
  let ?c = "\<lparr>ctx_deadline = None, ctx_canceled_at = None\<rparr>"
  have "\<exists>msg. ParseReceipt ?s reject_all ?c \<lparr>ImageData = [], ContentType = []\<rparr>
           = (Returned (errorResponse OCR_ERROR_INVALID_IMAGE msg) None, [])"
    by (rule ParseReceipt_invalid_image) simp
  moreover have "\<exists>msg. ParseReceipt ?s reject_all ?c \<lparr>ImageData = replicate (5 * 2 ^ 20 + 1) 0, ContentType = []\<rparr>
           = (Returned (errorResponse OCR_ERROR_INVALID_IMAGE msg) None, [])"
    by (rule ParseReceipt_invalid_image) simp
  ultimately show ?thesis
    by (simp add: ParseReceipt_def maxImageSize_def Let_def)
qed

lemma ctx_Err_WithTimeout:
  "(ctx_Err (WithTimeout ctx 0 timeout) now = Some DeadlineExceeded) = deadline_passed ctx now"
  by (auto simp: ctx_Err_def WithTimeout_def deadline_passed_def Let_def
           split: option.splits)

text \<open>
  Claim C2, as the code has it. When the call to the backend fails, the answer carries
  the timeout code exactly when the deadline of the request (the earlier of the
  caller's deadline and five minutes after the arrival) has passed by the time the call
  returns and the caller has not cancelled before it; in every other case, also when
  the caller has cancelled, it carries the model error code and the text of the
  backend's error.
\<close>

theorem ParseReceipt_backend_failure:
  assumes "0 < length (ImageData req)" and "length (ImageData req) \<le> maxImageSize"
    and "callModel s (WithTimeout ctx 0 timeout) (ImageData req)
           (cmp_Or (ContentType req) (lit ''image/jpeg'')) = ((ModelError err, returned_at), calls)"
  shows "ParseReceipt s scan ctx req =
           (Returned (if deadline_passed ctx returned_at
                      then errorResponse OCR_ERROR_TIMEOUT (lit ''inference timeout'')
                      else errorResponse OCR_ERROR_MODEL_ERROR err) None, calls)"
  using assms by (simp add: ParseReceipt_def Let_def ctx_Err_WithTimeout)

text \<open>
  The claim as stated fails: the caller cancels after one second, the backend gives up
  with the error of a cancelled context, and the answer is a model error, not a
  timeout.
\<close>

theorem ParseReceipt_cancelled_counterexample:
  "ParseReceipt \<lparr>ollama = Some cancelled_ollama, gemini = None, model = lit ''qwen2.5vl:3b''\<rparr>
       reject_all \<lparr>ctx_deadline = None, ctx_canceled_at = Some (10 ^ 9)\<rparr>
       \<lparr>ImageData = [255, 216, 255], ContentType = []\<rparr>
     = (Returned (errorResponse OCR_ERROR_MODEL_ERROR (lit ''ollama: context canceled'')) None,
        [Ollama_Generate \<lparr>ctx_deadline = Some timeout, ctx_canceled_at = Some (10 ^ 9)\<rparr>
           \<lparr>gModel = lit ''qwen2.5vl:3b'', gPrompt = prompt, gImages = [[255, 216, 255]],
            gStream = Some False\<rparr>])"
  by (simp add: ParseReceipt_def maxImageSize_def Let_def callModel_def callOllama_def
        cancelled_ollama_def WithTimeout_def ctx_Err_def timeout_def cmp_Or_def lit_def)

theorem ParseReceipt_backend_failure_witness:
  "ParseReceipt \<lparr>ollama = Some slow_ollama, gemini = None, model = lit ''qwen2.5vl:3b''\<rparr>
       reject_all \<lparr>ctx_deadline = None, ctx_canceled_at = None\<rparr>
       \<lparr>ImageData = [255, 216, 255], ContentType = []\<rparr>
     = (Returned (errorResponse OCR_ERROR_TIMEOUT (lit ''inference timeout'')) None,
        [Ollama_Generate \<lparr>ctx_deadline = Some timeout, ctx_canceled_at = None\<rparr>
           \<lparr>gModel = lit ''qwen2.5vl:3b'', gPrompt = prompt, gImages = [[255, 216, 255]],
            gStream = Some False\<rparr>])"
proof -
  let ?s = "\<lparr>ollama = Some slow_ollama, gemini = None, model = lit ''qwen2.5vl:3b''\<rparr>"
  let ?ctx = "\<lparr>ctx_deadline = None, ctx_canceled_at = None\<rparr>"
  let ?req = "\<lparr>ImageData = [255, 216, 255], ContentType = []\<rparr>"
  let ?calls = "[Ollama_Generate \<lparr>ctx_deadline = Some timeout, ctx_canceled_at = None\<rparr>
           \<lparr>gModel = lit ''qwen2.5vl:3b'', gPrompt = prompt, gImages = [[255, 216, 255]],
            gStream = Some False\<rparr>]"
  have size: "0 < length (ImageData ?req)" "length (ImageData ?req) \<le> maxImageSize"
    by (simp_all add: maxImageSize_def)
  have call: "callModel ?s (WithTimeout ?ctx 0 timeout) (ImageData ?req)
           (cmp_Or (ContentType ?req) (lit ''image/jpeg''))
         = ((ModelError (lit ''ollama: context deadline exceeded''), 5 * 60 * 10 ^ 9), ?calls)"
    by (simp add: callModel_def callOllama_def slow_ollama_def WithTimeout_def lit_def)
  have "deadline_passed ?ctx (5 * 60 * 10 ^ 9)"
    by (simp add: deadline_passed_def timeout_def)
  with ParseReceipt_backend_failure [OF size call, of reject_all] show ?thesis
    by simp
qed





text \<open>
  Claim C9. With a local client configured, the health handler calls the liveness probe
  once, under a deadline at most five seconds after the arrival of the request, and
  answers "ok" when the probe succeeds and "unhealthy" when it fails. Without a local
  client (the hosted configuration) it answers "ok" and calls nothing. The model of the
  answer is the configured model name in every case.
\<close>

theorem Health_status:
  "Health (s\<lparr>ollama := Some client\<rparr>) ctx =
     (Returned \<lparr>Status = (if ollama_List client (WithTimeout ctx 0 (5 * 10 ^ 9)) = None
                           then lit ''ok'' else lit ''unhealthy''),
                Model = model s\<rparr> None,
      [Ollama_List (WithTimeout ctx 0 (5 * 10 ^ 9))])
   \<and> (\<exists>d. ctx_deadline (WithTimeout ctx 0 (5 * 10 ^ 9)) = Some d \<and> d \<le> 5 * 10 ^ 9)
   \<and> Health (s\<lparr>ollama := None\<rparr>) ctx
       = (Returned \<lparr>Status = lit ''ok'', Model = model s\<rparr> None, [])"
proof -
  let ?ctx = "WithTimeout ctx 0 (5 * 10 ^ 9)"
  have probe: "Health (s\<lparr>ollama := Some client\<rparr>) ctx =
     (Returned \<lparr>Status = (if ollama_List client ?ctx = None then lit ''ok'' else lit ''unhealthy''),
                Model = model s\<rparr> None,
      [Ollama_List ?ctx])"
    by (cases "ollama_List client ?ctx") (simp_all add: Health_def Let_def)
  have bound: "\<exists>d. ctx_deadline ?ctx = Some d \<and> d \<le> 5 * 10 ^ 9"
    by (cases "ctx_deadline ctx") (simp_all add: WithTimeout_def)
  have hosted: "Health (s\<lparr>ollama := None\<rparr>) ctx
       = (Returned \<lparr>Status = lit ''ok'', Model = model s\<rparr> None, [])"
    by (simp add: Health_def)
  from probe bound hosted show ?thesis
    by (intro conjI)
qed

subsection \<open>A complete request\<close>

text \<open>
  The backend replies with a receipt in a fenced block: merchant, currency, one item,
  subtotal and total, no date. The answer is a success whose confidence is 0.9: the
  base, the merchant, the total, the items and the reconciled subtotal.
\<close>

lemma acme_extract:
  "extractJSON acme_reply
   = lit ''{\"merchant\":\"Acme\",\"currency\":\"CAD\",\"items\":[{\"raw\":\"EGGS\",\"name\":\"Eggs\",\"qty\":1,\"unit_price\":4.5}],\"subtotal\":4.5,\"total\":4.5}''"
  by (simp add: acme_reply_def extract_eval skip_json_def re_space_def)

lemma acme_parse:
  "parseResponse acme_scan acme_reply
   = Inr \<lparr>Merchant = Some (lit ''Acme''), Date = None, Currency = Some (lit ''CAD''),
          Items = [\<lparr>Raw = lit ''EGGS'', Name = Some (lit ''Eggs''), Qty = 1, UnitPrice = 4.5\<rparr>],
          Subtotal = Some 4.5, Tax = None, Total = Some 4.5, Confidence = 0\<rparr>"
  unfolding parseResponse_def acme_extract Let_def
  by (simp add: acme_scan_def store_eval float64_out_of_range_def receipt_of_def pbItem_def
        zero_ParsedReceipt_def Let_def)

lemma acme_scenario:
  "fst (ParseReceipt \<lparr>ollama = Some acme_ollama, gemini = None, model = lit ''qwen2.5vl:3b''\<rparr>
          acme_scan \<lparr>ctx_deadline = None, ctx_canceled_at = None\<rparr>
          \<lparr>ImageData = [255, 216, 255], ContentType = []\<rparr>)
   = Returned \<lparr>Success = True,
       Data = Some \<lparr>Merchant = Some (lit ''Acme''), Date = None, Currency = Some (lit ''CAD''),
          Items = [\<lparr>Raw = lit ''EGGS'', Name = Some (lit ''Eggs''), Qty = 1, UnitPrice = 4.5\<rparr>],
          Subtotal = Some 4.5, Tax = None, Total = Some 4.5, Confidence = 0.9\<rparr>,
       Error = None\<rparr> None"
  by (simp add: ParseReceipt_def maxImageSize_def Let_def callModel_def callOllama_def
        acme_ollama_def acme_parse calcConfidence_def withinTolerance_def)

end

